theory Spec2Isabelle
  imports Complex_Main "HOL-Library.AList"
begin

section \<open>The rate limit proxy (index.ts)\<close>

text \<open>
  A shallow embedding of \<^verbatim>\<open>index.ts\<close>: the in-memory store and its sweep, the Lua script,
  \<^verbatim>\<open>rateLimit\<close>, the \<^verbatim>\<open>preHandler\<close> hook and the two route handlers.

  Numbers. The counters, limits, durations and clock readings of the program are JavaScript
  numbers that hold integers (\<^verbatim>\<open>Date.now()\<close>, the Joi-validated \<^verbatim>\<open>integer()\<close> fields, and
  counters that start at 1 and grow by 1). They are modelled as \<^typ>\<open>int\<close>; the loss of precision
  of a double beyond \<open>2^53\<close> is outside the model. The one number that comes from arbitrary
  text, the \<^verbatim>\<open>X-Timestamp\<close> header after \<^verbatim>\<open>Number(...)\<close>, has the type \<open>jsnum\<close> below.
\<close>

subsection \<open>Global state\<close>

text \<open>\<^verbatim>\<open>memoryStore = new Map<string, { count: number; expiresAt: number }>()\<close>.
  A JavaScript \<^verbatim>\<open>Map\<close> keeps its entries in insertion order, one entry per key; it is an
  association list whose keys are distinct. \<^verbatim>\<open>get\<close> is \<^const>\<open>map_of\<close>, \<^verbatim>\<open>set\<close> is
  \<^const>\<open>AList.update\<close> (an existing key keeps its place, a new key goes to the end),
  \<^verbatim>\<open>delete\<close> is \<^const>\<open>AList.delete\<close> and \<^verbatim>\<open>size\<close> is \<^const>\<open>length\<close>.\<close>

record counter_record =
  count :: int
  expiresAt :: int

type_synonym memory_store = "(string \<times> counter_record) list"

text \<open>\<^verbatim>\<open>let redis: Redis | null\<close>, \<^verbatim>\<open>let redisConnected\<close> and the store. The type \<open>'r\<close> is the
  state of the remote store as seen through the client object.\<close>

record 'r app_state =
  redis :: "'r option"
  redisConnected :: bool
  memoryStore :: memory_store

definition wf_store :: "memory_store \<Rightarrow> bool" where
  "wf_store store \<longleftrightarrow> distinct (map fst store)"

definition initial_state :: "'r app_state" where
  "initial_state = \<lparr>redis = None, redisConnected = False, memoryStore = []\<rparr>"

subsection \<open>The cleanup interval\<close>

text \<open>The body of the \<^verbatim>\<open>setInterval\<close> callback: a loop over the entries of the map that deletes
  the entry it stands on when \<^verbatim>\<open>value.expiresAt <= now\<close>. The second argument is what is
  left to visit, the third the map itself.\<close>

fun sweep_loop :: "int \<Rightarrow> memory_store \<Rightarrow> memory_store \<Rightarrow> memory_store" where
  "sweep_loop now [] store = store"
| "sweep_loop now ((k, v) # rest) store =
     (if expiresAt v \<le> now then sweep_loop now rest (AList.delete k store)
      else sweep_loop now rest store)"

definition sweep :: "int \<Rightarrow> 'r app_state \<Rightarrow> 'r app_state" where
  "sweep now st = st\<lparr>memoryStore := sweep_loop now (memoryStore st) (memoryStore st)\<rparr>"

subsection \<open>connectRedis and the connection events\<close>

text \<open>\<^verbatim>\<open>connectRedis\<close> leaves \<^verbatim>\<open>redis\<close> null when \<^verbatim>\<open>REDIS_URL\<close> is not set, and otherwise creates
  the client (here: the remote state \<open>r0\<close> it reaches) and registers the three handlers on it.
  The handlers exist only on a client, so an event changes the flag only when there is one.\<close>

datatype redis_event = Connect | Error | Close

definition connectRedis :: "string option \<Rightarrow> 'r \<Rightarrow> 'r app_state \<Rightarrow> 'r app_state" where
  "connectRedis REDIS_URL r0 st =
     (case REDIS_URL of
        None \<Rightarrow> st
      | Some u \<Rightarrow> if u = [] then st else st\<lparr>redis := Some r0\<rparr>)"

definition redis_on :: "redis_event \<Rightarrow> 'r app_state \<Rightarrow> 'r app_state" where
  "redis_on ev st =
     (case redis st of
        None \<Rightarrow> st
      | Some _ \<Rightarrow>
          (case ev of
             Connect \<Rightarrow> st\<lparr>redisConnected := True\<rparr>
           | Error \<Rightarrow> st\<lparr>redisConnected := False\<rparr>
           | Close \<Rightarrow> st\<lparr>redisConnected := False\<rparr>))"

subsection \<open>The Lua script\<close>

text \<open>The script calls three commands of the remote store. The store is not part of the
  program, so the commands are parameters: each takes the remote state and gives a reply or an
  error (\<^verbatim>\<open>redis.call\<close> raises, which ends the script), and the state after it. A failure of
  the transport is a failure of a command here.\<close>

datatype redis_error = Redis_error string

record 'r redis_cmds =
  INCR :: "string \<Rightarrow> 'r \<Rightarrow> (redis_error + int) \<times> 'r"
  EXPIRE :: "string \<Rightarrow> int \<Rightarrow> 'r \<Rightarrow> (redis_error + int) \<times> 'r"
  TTL :: "string \<Rightarrow> 'r \<Rightarrow> (redis_error + int) \<times> 'r"

text \<open>\<^verbatim>\<open>RATE_LIMIT_SCRIPT\<close> with \<^verbatim>\<open>KEYS[1] = key\<close>, \<^verbatim>\<open>ARGV[1] = limit\<close>, \<^verbatim>\<open>ARGV[2] = duration\<close>.
  The script binds \<^verbatim>\<open>limit\<close> and does not read it again.\<close>

definition RATE_LIMIT_SCRIPT ::
  "'r redis_cmds \<Rightarrow> string \<Rightarrow> int \<Rightarrow> int \<Rightarrow> 'r \<Rightarrow> (redis_error + int \<times> int) \<times> 'r" where
  "RATE_LIMIT_SCRIPT c k limit dur r0 =
     (case INCR c k r0 of
        (Inl e, r1) \<Rightarrow> (Inl e, r1)
      | (Inr cur, r1) \<Rightarrow>
          (case (if cur = 1 then EXPIRE c k dur r1 else (Inr 0, r1)) of
             (Inl e, r2) \<Rightarrow> (Inl e, r2)
           | (Inr _, r2) \<Rightarrow>
               (case TTL c k r2 of
                  (Inl e, r3) \<Rightarrow> (Inl e, r3)
                | (Inr t, r3) \<Rightarrow> (Inr (cur, t), r3))))"

subsection \<open>rateLimit\<close>

record rl_result =
  current :: int
  ttl :: int

text \<open>The second half of \<^verbatim>\<open>rateLimit\<close> (after the \<^verbatim>\<open>// In-memory fallback\<close> comment), with
  \<open>now\<close> the value of \<^verbatim>\<open>Date.now()\<close> read there. \<^verbatim>\<open>existing.count++\<close> changes the record
  that the map holds, in its place.\<close>

definition memoryFallback ::
  "int \<Rightarrow> string \<Rightarrow> int \<Rightarrow> memory_store \<Rightarrow> rl_result \<times> memory_store" where
  "memoryFallback now k dur store =
     (let fresh = (\<lparr>current = 1, ttl = dur\<rparr>,
                   AList.update k \<lparr>count = 1, expiresAt = now + dur * 1000\<rparr> store)
      in case map_of store k of
           None \<Rightarrow> fresh
         | Some existing \<Rightarrow>
             if expiresAt existing > now then
               (let existing' = existing\<lparr>count := count existing + 1\<rparr>
                in (\<lparr>current = count existing',
                     ttl = \<lceil>real_of_int (expiresAt existing - now) / 1000\<rceil>\<rparr>,
                    AList.update k existing' store))
             else fresh)"

text \<open>\<^verbatim>\<open>rateLimit(key, limit, duration)\<close>. The \<^verbatim>\<open>try\<close> around \<^verbatim>\<open>redis.eval\<close> catches every
  error of the attempt and falls through to the in-memory half.\<close>

definition rateLimit ::
  "'r redis_cmds \<Rightarrow> int \<Rightarrow> string \<Rightarrow> int \<Rightarrow> int \<Rightarrow> 'r app_state \<Rightarrow> rl_result \<times> 'r app_state" where
  "rateLimit c now k limit dur st =
     (let local = (\<lambda>s. case memoryFallback now k dur (memoryStore s) of
                          (res, store') \<Rightarrow> (res, s\<lparr>memoryStore := store'\<rparr>))
      in case (if redisConnected st then redis st else None) of
           None \<Rightarrow> local st
         | Some r \<Rightarrow>
             (case RATE_LIMIT_SCRIPT c k limit dur r of
                (Inr result, r') \<Rightarrow>
                  (\<lparr>current = fst result, ttl = snd result\<rparr>, st\<lparr>redis := Some r'\<rparr>)
              | (Inl err, r') \<Rightarrow> local (st\<lparr>redis := Some r'\<rparr>)))"

subsection \<open>Replies\<close>

text \<open>A reply is a status code and a JSON body. The body of a validation failure carries the
  rule that failed instead of Joi's message text.\<close>

datatype joi_failure =
    Key_empty
  | Points_unsafe
  | Points_below_min
  | Duration_unsafe
  | Duration_below_min

datatype payload =
    Error_body string
  | Validation_body joi_failure
  | Allowed_body int
  | Denied_body int
  | Health_body string string nat

record reply =
  status :: nat
  payload :: payload

subsection \<open>The preHandler hook\<close>

text \<open>\<^verbatim>\<open>Number(req.headers["x-timestamp"])\<close> is a double: not-a-number, a finite value or an
  infinity.\<close>

datatype jsnum = NaN | Fin real | PosInf | NegInf

text \<open>\<^verbatim>\<open>!ts\<close>: a number is falsy when it is NaN or zero.\<close>

fun falsy_num :: "jsnum \<Rightarrow> bool" where
  "falsy_num NaN = True"
| "falsy_num (Fin v) = (v = 0)"
| "falsy_num PosInf = False"
| "falsy_num NegInf = False"

text \<open>\<^verbatim>\<open>!auth\<close>, \<^verbatim>\<open>!sig\<close>: a header is falsy when it is absent or the empty string.\<close>

fun falsy_header :: "string option \<Rightarrow> bool" where
  "falsy_header None = True"
| "falsy_header (Some s) = (s = [])"

definition MAX_CLOCK_SKEW_MS :: real where
  "MAX_CLOCK_SKEW_MS = 30000"

text \<open>\<^verbatim>\<open>Math.abs(Date.now() - ts) > MAX_CLOCK_SKEW_MS\<close>; a comparison with NaN is false.\<close>

fun skew_exceeded :: "int \<Rightarrow> jsnum \<Rightarrow> bool" where
  "skew_exceeded now NaN = False"
| "skew_exceeded now (Fin v) = (\<bar>real_of_int now - v\<bar> > MAX_CLOCK_SKEW_MS)"
| "skew_exceeded now PosInf = True"
| "skew_exceeded now NegInf = True"

text \<open>What the hook takes from the runtime: the secret of the environment, the conversion
  \<^verbatim>\<open>Number\<close> of a header that may be absent, \<^verbatim>\<open>toString\<close> of a number, and HMAC-SHA256 with a
  key, as lowercase hex.\<close>

record env =
  SHARED_SECRET :: string
  Number_js :: "string option \<Rightarrow> jsnum"
  toString_js :: "jsnum \<Rightarrow> string"
  createHmac_sha256_hex :: "string \<Rightarrow> string \<Rightarrow> string"

definition hmac :: "env \<Rightarrow> string \<Rightarrow> string" where
  "hmac e data = createHmac_sha256_hex e (SHARED_SECRET e) data"

datatype route = POST_ratelimit | GET_health

fun url :: "route \<Rightarrow> string" where
  "url POST_ratelimit = ''/ratelimit''"
| "url GET_health = ''/health''"

text \<open>The body of a request as the schema sees it when its fields have the right JSON types:
  \<^verbatim>\<open>key\<close> a string, \<^verbatim>\<open>points\<close> and \<^verbatim>\<open>duration\<close> absent or integers.\<close>

record rl_body =
  body_key :: string
  body_points :: "int option"
  body_duration :: "int option"

record request =
  req_route :: route
  authorization :: "string option"
  x_timestamp :: "string option"
  x_signature :: "string option"
  req_body :: rl_body

definition Unauthorized :: reply where
  "Unauthorized = \<lparr>status = 401, payload = Error_body ''Unauthorized''\<rparr>"

definition MissingSignature :: reply where
  "MissingSignature = \<lparr>status = 400, payload = Error_body ''Missing signature''\<rparr>"

definition ExpiredRequest :: reply where
  "ExpiredRequest = \<lparr>status = 401, payload = Error_body ''Expired request''\<rparr>"

definition InvalidSignature :: reply where
  "InvalidSignature = \<lparr>status = 401, payload = Error_body ''Invalid signature''\<rparr>"

text \<open>The hook gives \<open>Some reply\<close> when it answers the request itself and \<open>None\<close> when the
  request goes on to its route handler.\<close>

definition auth_rejected :: "env \<Rightarrow> request \<Rightarrow> bool" where
  "auth_rejected e req \<longleftrightarrow>
     falsy_header (authorization req) \<or>
     authorization req \<noteq> Some (''Bearer '' @ SHARED_SECRET e)"

definition preHandler :: "env \<Rightarrow> int \<Rightarrow> request \<Rightarrow> reply option" where
  "preHandler e now req =
     (if url (req_route req) = ''/health'' then
        (if auth_rejected e req then Some Unauthorized else None)
      else
        (let ts = Number_js e (x_timestamp req);
             sig = x_signature req
         in if auth_rejected e req then Some Unauthorized
            else if falsy_num ts \<or> falsy_header sig then Some MissingSignature
            else if skew_exceeded now ts then Some ExpiredRequest
            else if sig \<noteq> Some (hmac e (toString_js e ts)) then Some InvalidSignature
            else None))"

subsection \<open>POST /ratelimit\<close>

text \<open>\<^verbatim>\<open>rateLimitSchema\<close>: \<^verbatim>\<open>key\<close> of length at least 1; \<^verbatim>\<open>points\<close> and \<^verbatim>\<open>duration\<close>, when
  present, numbers that \<^verbatim>\<open>Joi.number()\<close> takes, which refuses every number outside the
  safe-integer range \<open>\<plusminus>(2^53 - 1)\<close>, and then at least 1. The keys are checked in the order of
  the schema and the first failure is the one reported.\<close>

definition MAX_SAFE_INTEGER :: int where
  "MAX_SAFE_INTEGER = 9007199254740991"

definition unsafe_number :: "int \<Rightarrow> bool" where
  "unsafe_number n \<longleftrightarrow> n > MAX_SAFE_INTEGER \<or> n < - MAX_SAFE_INTEGER"

definition check_number :: "joi_failure \<Rightarrow> joi_failure \<Rightarrow> int option \<Rightarrow> joi_failure option" where
  "check_number unsafe below v =
     (case v of
        None \<Rightarrow> None
      | Some n \<Rightarrow> if unsafe_number n then Some unsafe else if n < 1 then Some below else None)"

definition rateLimitSchema_validate :: "rl_body \<Rightarrow> joi_failure + rl_body" where
  "rateLimitSchema_validate b =
     (if length (body_key b) < 1 then Inl Key_empty
      else case check_number Points_unsafe Points_below_min (body_points b) of
             Some f \<Rightarrow> Inl f
           | None \<Rightarrow>
               (case check_number Duration_unsafe Duration_below_min (body_duration b) of
                  Some f \<Rightarrow> Inl f
                | None \<Rightarrow> Inr b))"

definition ratelimit_handler ::
  "'r redis_cmds \<Rightarrow> int \<Rightarrow> rl_body \<Rightarrow> 'r app_state \<Rightarrow> reply \<times> 'r app_state" where
  "ratelimit_handler c now body st =
     (case rateLimitSchema_validate body of
        Inl err \<Rightarrow> (\<lparr>status = 400, payload = Validation_body err\<rparr>, st)
      | Inr v \<Rightarrow>
          (let k = body_key v;
               points = (case body_points v of None \<Rightarrow> 100 | Some p \<Rightarrow> p);
               dur = (case body_duration v of None \<Rightarrow> 60 | Some d \<Rightarrow> d);
               redisKey = ''rl:'' @ k
           in case rateLimit c now redisKey points dur st of
                (res, st') \<Rightarrow>
                  if current res > points then
                    (\<lparr>status = 429, payload = Denied_body (ttl res)\<rparr>, st')
                  else
                    (\<lparr>status = 200, payload = Allowed_body (points - current res)\<rparr>, st')))"

subsection \<open>GET /health\<close>

definition health_handler :: "'r app_state \<Rightarrow> reply" where
  "health_handler st =
     \<lparr>status = 200,
      payload = Health_body ''ok''
        (if redisConnected st then ''connected'' else ''disconnected (using memory fallback)'')
        (length (memoryStore st))\<rparr>"

subsection \<open>A request through the hook and its route\<close>

text \<open>\<open>now_hook\<close> and \<open>now_rl\<close> are the two readings of \<^verbatim>\<open>Date.now()\<close>, in the hook and in
  \<^verbatim>\<open>rateLimit\<close>.\<close>

definition serve ::
  "env \<Rightarrow> 'r redis_cmds \<Rightarrow> int \<Rightarrow> int \<Rightarrow> request \<Rightarrow> 'r app_state \<Rightarrow> reply \<times> 'r app_state" where
  "serve e c now_hook now_rl req st =
     (case preHandler e now_hook req of
        Some r \<Rightarrow> (r, st)
      | None \<Rightarrow>
          (case req_route req of
             GET_health \<Rightarrow> (health_handler st, st)
           | POST_ratelimit \<Rightarrow> ratelimit_handler c now_rl (req_body req) st))"

subsection \<open>Sequences of operations\<close>


text \<open>Everything in the program that writes a global: \<^verbatim>\<open>connectRedis\<close>, a connection event,
  a run of the cleanup interval, and a call of \<^verbatim>\<open>rateLimit\<close>.\<close>

datatype 'r action =
    Act_connectRedis "string option" 'r
  | Act_event redis_event
  | Act_sweep int
  | Act_rateLimit int string int int

fun apply_action :: "'r redis_cmds \<Rightarrow> 'r action \<Rightarrow> 'r app_state \<Rightarrow> 'r app_state" where
  "apply_action c (Act_connectRedis u r0) st = connectRedis u r0 st"
| "apply_action c (Act_event ev) st = redis_on ev st"
| "apply_action c (Act_sweep now) st = sweep now st"
| "apply_action c (Act_rateLimit now k limit dur) st = snd (rateLimit c now k limit dur st)"

fun run_actions :: "'r redis_cmds \<Rightarrow> 'r action list \<Rightarrow> 'r app_state \<Rightarrow> 'r app_state" where
  "run_actions c [] st = st"
| "run_actions c (a # as) st = run_actions c as (apply_action c a st)"

subsection \<open>Properties of a state\<close>

text \<open>Every record of the map has a count of at least 1.\<close>

definition counts_positive :: "memory_store \<Rightarrow> bool" where
  "counts_positive store = list_all (\<lambda>p. 1 \<le> count (snd p)) store"

text \<open>The flag is set only by an event of a client, so a true flag comes with a client.\<close>

definition client_present :: "'r app_state \<Rightarrow> bool" where
  "client_present st = (if redisConnected st then redis st \<noteq> None else True)"

text \<open>A key has no live record at \<open>now\<close>: no entry, or an entry that has expired.\<close>

definition no_live_record :: "memory_store \<Rightarrow> string \<Rightarrow> int \<Rightarrow> bool" where
  "no_live_record store k now =
     (case map_of store k of None \<Rightarrow> True | Some r \<Rightarrow> expiresAt r \<le> now)"

text \<open>A call of \<^verbatim>\<open>rateLimit\<close> is answered by its in-memory half: the shared backend is not
  tried (flag false, or no client), or the script on it fails.\<close>

definition served_locally ::
  "'r redis_cmds \<Rightarrow> string \<Rightarrow> int \<Rightarrow> int \<Rightarrow> 'r app_state \<Rightarrow> bool" where
  "served_locally c k limit dur st =
     (case (if redisConnected st then redis st else None) of
        None \<Rightarrow> True
      | Some r \<Rightarrow> isl (fst (RATE_LIMIT_SCRIPT c k limit dur r)))"


fun is_decision :: "payload \<Rightarrow> bool" where
  "is_decision (Allowed_body n) = True"
| "is_decision (Denied_body n) = True"
| "is_decision (Error_body m) = False"
| "is_decision (Validation_body f) = False"
| "is_decision (Health_body a b n) = False"

subsection \<open>A reference instance of the remote store\<close>

text \<open>For concrete examples: the three commands after the command reference of Redis, on a
  store with its own clock (milliseconds). A key holds an integer or a value of another type (a
  list); a key whose expiry has passed counts as absent. The theorems about the script and about
  \<^verbatim>\<open>rateLimit\<close> hold for every implementation of the commands, not only for this one.\<close>

datatype redis_value = RInt int | RList "string list"

record redis_entry =
  rvalue :: redis_value
  expire_at :: "int option"

record redis_db =
  server_now :: int
  entries :: "(string \<times> redis_entry) list"

definition entry_live :: "int \<Rightarrow> redis_entry \<Rightarrow> bool" where
  "entry_live t e = (case expire_at e of None \<Rightarrow> True | Some x \<Rightarrow> t < x)"

definition lookup_live :: "redis_db \<Rightarrow> string \<Rightarrow> redis_entry option" where
  "lookup_live db k =
     (case map_of (entries db) k of
        None \<Rightarrow> None
      | Some e \<Rightarrow> if entry_live (server_now db) e then Some e else None)"

definition Redis_INCR :: "string \<Rightarrow> redis_db \<Rightarrow> (redis_error + int) \<times> redis_db" where
  "Redis_INCR k db =
     (case lookup_live db k of
        None \<Rightarrow>
          (Inr 1, db\<lparr>entries := AList.update k \<lparr>rvalue = RInt 1, expire_at = None\<rparr> (entries db)\<rparr>)
      | Some e \<Rightarrow>
          (case rvalue e of
             RList xs \<Rightarrow>
               (Inl (Redis_error ''WRONGTYPE Operation against a key holding the wrong kind of value''), db)
           | RInt n \<Rightarrow>
               if n \<ge> 2 ^ 63 - 1 then
                 (Inl (Redis_error ''ERR increment or decrement would overflow''), db)
               else
                 (Inr (n + 1),
                  db\<lparr>entries := AList.update k (e\<lparr>rvalue := RInt (n + 1)\<rparr>) (entries db)\<rparr>)))"

definition Redis_EXPIRE :: "string \<Rightarrow> int \<Rightarrow> redis_db \<Rightarrow> (redis_error + int) \<times> redis_db" where
  "Redis_EXPIRE k secs db =
     (case lookup_live db k of
        None \<Rightarrow> (Inr 0, db)
      | Some e \<Rightarrow>
          (Inr 1,
           db\<lparr>entries :=
                AList.update k (e\<lparr>expire_at := Some (server_now db + secs * 1000)\<rparr>) (entries db)\<rparr>))"

definition Redis_TTL :: "string \<Rightarrow> redis_db \<Rightarrow> (redis_error + int) \<times> redis_db" where
  "Redis_TTL k db =
     (case lookup_live db k of
        None \<Rightarrow> (Inr (- 2), db)
      | Some e \<Rightarrow>
          (case expire_at e of
             None \<Rightarrow> (Inr (- 1), db)
           | Some x \<Rightarrow> (Inr ((x - server_now db + 500) div 1000), db)))"

definition Redis_DBSIZE :: "redis_db \<Rightarrow> nat" where
  "Redis_DBSIZE db = length (filter (\<lambda>p. entry_live (server_now db) (snd p)) (entries db))"

definition Redis_cmds :: "redis_db redis_cmds" where
  "Redis_cmds = \<lparr>INCR = Redis_INCR, EXPIRE = Redis_EXPIRE, TTL = Redis_TTL\<rparr>"

subsection \<open>An environment for concrete examples\<close>

text \<open>\<^verbatim>\<open>Number\<close> on an absent header (NaN) and on a header of decimal digits only (its value;
  the empty text gives 0). Up to 15 digits the value is an exact double. Texts with other
  characters are outside this instance: it answers NaN for them, which JavaScript does not do
  for signs, fractions, exponents, blanks, prefixes and \<^verbatim>\<open>Infinity\<close>.\<close>

definition digit_of :: "char \<Rightarrow> nat option" where
  "digit_of =
     map_of [(CHR ''0'', 0), (CHR ''1'', 1), (CHR ''2'', 2), (CHR ''3'', 3), (CHR ''4'', 4),
             (CHR ''5'', 5), (CHR ''6'', 6), (CHR ''7'', 7), (CHR ''8'', 8), (CHR ''9'', 9)]"

fun digits_value :: "nat \<Rightarrow> string \<Rightarrow> nat option" where
  "digits_value acc [] = Some acc"
| "digits_value acc (c # cs) =
     (case digit_of c of None \<Rightarrow> None | Some d \<Rightarrow> digits_value (10 * acc + d) cs)"

definition Number_digits :: "string option \<Rightarrow> jsnum" where
  "Number_digits h =
     (case h of
        None \<Rightarrow> NaN
      | Some s \<Rightarrow> (case digits_value 0 s of None \<Rightarrow> NaN | Some n \<Rightarrow> Fin (real n)))"

text \<open>The other two functions of the example environment are stand-ins (SHA-256 is not
  modelled); no example depends on what they return.\<close>

definition example_env :: env where
  "example_env =
     \<lparr>SHARED_SECRET = ''s3cret'',
      Number_js = Number_digits,
      toString_js = (\<lambda>n. ''?''),
      createHmac_sha256_hex = (\<lambda>k data. k @ '':'' @ data)\<rparr>"

subsection \<open>Concrete requests and states\<close>

text \<open>A signed request to \<^verbatim>\<open>POST /ratelimit\<close> with the bearer token of the example
  environment and given \<^verbatim>\<open>X-Timestamp\<close> and \<^verbatim>\<open>X-Signature\<close> headers.\<close>

definition post_request :: "string option \<Rightarrow> string option \<Rightarrow> request" where
  "post_request ts sig =
     \<lparr>req_route = POST_ratelimit,
      authorization = Some ''Bearer s3cret'',
      x_timestamp = ts,
      x_signature = sig,
      req_body = \<lparr>body_key = ''a'', body_points = None, body_duration = None\<rparr>\<rparr>"

text \<open>A request to \<^verbatim>\<open>GET /health\<close> with the bearer token only.\<close>

definition health_request :: request where
  "health_request =
     \<lparr>req_route = GET_health,
      authorization = Some ''Bearer s3cret'',
      x_timestamp = None,
      x_signature = None,
      req_body = \<lparr>body_key = [], body_points = None, body_duration = None\<rparr>\<rparr>"

text \<open>The state after the client was created, its \<^verbatim>\<open>connect\<close> event arrived, and one call of
  \<^verbatim>\<open>rateLimit\<close> was served by the reference store.\<close>

definition connected_state :: "redis_db app_state" where
  "connected_state =
     run_actions Redis_cmds
       [Act_connectRedis (Some ''redis://localhost:6379'') \<lparr>server_now = 1000, entries = []\<rparr>,
        Act_event Connect,
        Act_rateLimit 1000 ''rl:a'' 5 10]
       initial_state"

text \<open>A connected state whose remote store holds a list under the key \<open>rl:a\<close>, so that
  \<^verbatim>\<open>INCR\<close> on that key fails.\<close>

definition failing_state :: "redis_db app_state" where
  "failing_state =
     \<lparr>redis = Some \<lparr>server_now = 1000,
                     entries = [(''rl:a'', \<lparr>rvalue = RList [], expire_at = None\<rparr>)]\<rparr>,
      redisConnected = True,
      memoryStore = []\<rparr>"




section \<open>Lemmas about the in-memory half\<close>

lemma memoryFallback_fresh:
  assumes "no_live_record store k now"
  shows "memoryFallback now k dur store =
           (\<lparr>current = 1, ttl = dur\<rparr>,
            AList.update k \<lparr>count = 1, expiresAt = now + dur * 1000\<rparr> store)"
  using assms by (auto simp: memoryFallback_def no_live_record_def Let_def split: option.splits)

lemma memoryFallback_live:
  assumes "map_of store k = Some r" and "now < expiresAt r"
  shows "memoryFallback now k dur store =
           (\<lparr>current = count r + 1, ttl = \<lceil>real_of_int (expiresAt r - now) / 1000\<rceil>\<rparr>,
            AList.update k (r\<lparr>count := count r + 1\<rparr>) store)"
  using assms by (simp add: memoryFallback_def Let_def)

lemma memoryFallback_cases:
  obtains (fresh) "no_live_record store k now"
      "memoryFallback now k dur store =
         (\<lparr>current = 1, ttl = dur\<rparr>,
          AList.update k \<lparr>count = 1, expiresAt = now + dur * 1000\<rparr> store)"
  | (live) r where "map_of store k = Some r" "now < expiresAt r"
      "memoryFallback now k dur store =
         (\<lparr>current = count r + 1, ttl = \<lceil>real_of_int (expiresAt r - now) / 1000\<rceil>\<rparr>,
          AList.update k (r\<lparr>count := count r + 1\<rparr>) store)"
proof (cases "no_live_record store k now")
  case True
  then show ?thesis using fresh memoryFallback_fresh by blast
next
  case False
  then obtain r where "map_of store k = Some r" "now < expiresAt r"
    by (auto simp: no_live_record_def split: option.splits)
  then show ?thesis using live memoryFallback_live by blast
qed

lemma rateLimit_local:
  assumes "\<not> redisConnected st"
  shows "rateLimit c now k limit dur st =
           (fst (memoryFallback now k dur (memoryStore st)),
            st\<lparr>memoryStore := snd (memoryFallback now k dur (memoryStore st))\<rparr>)"
  using assms by (simp add: rateLimit_def split: prod.splits)

lemma rateLimit_served_locally:
  assumes "served_locally c k limit dur st"
  shows "fst (rateLimit c now k limit dur st) = fst (memoryFallback now k dur (memoryStore st))
         \<and> memoryStore (snd (rateLimit c now k limit dur st)) =
             snd (memoryFallback now k dur (memoryStore st))"
  using assms
  by (auto simp: served_locally_def rateLimit_def split: option.splits prod.splits sum.splits if_splits)

lemma served_locally_flag_false: "\<not> redisConnected st \<Longrightarrow> served_locally c k limit dur st"
  by (simp add: served_locally_def)

lemma served_locally_failing_state:
  "served_locally Redis_cmds ''rl:a'' limit dur (failing_state\<lparr>memoryStore := store\<rparr>)"
  by (simp add: served_locally_def failing_state_def RATE_LIMIT_SCRIPT_def Redis_cmds_def
      Redis_INCR_def lookup_live_def entry_live_def)

lemma wf_store_update: "wf_store store \<Longrightarrow> wf_store (AList.update k v store)"
  by (simp add: wf_store_def distinct_update)

lemma wf_store_memoryFallback:
  "wf_store store \<Longrightarrow> wf_store (snd (memoryFallback now k dur store))"
  by (cases rule: memoryFallback_cases [of store k now dur]) (simp_all add: wf_store_update)

lemma counts_positive_update:
  "counts_positive store \<Longrightarrow> 1 \<le> count v \<Longrightarrow> counts_positive (AList.update k v store)"
  by (induction store) (auto simp: counts_positive_def)

lemma counts_positive_lookup:
  "counts_positive store \<Longrightarrow> map_of store k = Some r \<Longrightarrow> 1 \<le> count r"
proof -
  assume cp: "counts_positive store" and "map_of store k = Some r"
  then have "(k, r) \<in> set store" by (rule_tac map_of_SomeD)
  with cp have "1 \<le> count (snd (k, r))"
    unfolding counts_positive_def list_all_iff by blast
  then show ?thesis by simp
qed

lemma counts_positive_memoryFallback:
  assumes "counts_positive store"
  shows "counts_positive (snd (memoryFallback now k dur store))"
proof (cases rule: memoryFallback_cases [of store k now dur])
  case fresh
  then show ?thesis using assms by (simp add: counts_positive_update)
next
  case (live r)
  then have "1 \<le> count (r\<lparr>count := count r + 1\<rparr>)"
    using counts_positive_lookup [OF assms live(1)] by simp
  then show ?thesis using assms live by (simp add: counts_positive_update)
qed

section \<open>Lemmas about the cleanup interval\<close>

lemma delete_filter_fst: "AList.delete k store = filter (\<lambda>x. fst x \<noteq> k) store"
  by (induction store) auto

lemma sweep_loop_filter_gen:
  "sweep_loop now rest store =
     filter (\<lambda>x. fst x \<notin> fst ` set (filter (\<lambda>q. expiresAt (snd q) \<le> now) rest)) store"
proof (induction now rest store rule: sweep_loop.induct)
  case (1 now store)
  then show ?case by simp
next
  case (2 now k v rest store)
  show ?case
  proof (cases "expiresAt v \<le> now")
    case True
    have pw: "(fst x \<noteq> k \<and> fst x \<notin> fst ` set (filter (\<lambda>q. expiresAt (snd q) \<le> now) rest)) =
              (fst x \<notin> fst ` set (filter (\<lambda>q. expiresAt (snd q) \<le> now) ((k, v) # rest)))" for x
      using True by simp
    have "sweep_loop now ((k, v) # rest) store = sweep_loop now rest (AList.delete k store)"
      using True by simp
    also have "\<dots> = filter (\<lambda>x. fst x \<notin> fst ` set (filter (\<lambda>q. expiresAt (snd q) \<le> now) rest))
                       (filter (\<lambda>x. fst x \<noteq> k) store)"
      using "2.IH"(1)[OF True] by (simp only: delete_filter_fst)
    also have "\<dots> = filter (\<lambda>x. fst x \<noteq> k \<and>
                         fst x \<notin> fst ` set (filter (\<lambda>q. expiresAt (snd q) \<le> now) rest)) store"
      by (simp only: filter_filter)
    also have "\<dots> = filter (\<lambda>x. fst x \<notin> fst ` set (filter (\<lambda>q. expiresAt (snd q) \<le> now) ((k, v) # rest))) store"
      by (simp only: pw)
    finally show ?thesis .
  next
    case False
    then show ?thesis using 2 by simp
  qed
qed

lemma sweep_loop_filter:
  assumes "wf_store store"
  shows "sweep_loop now store store = filter (\<lambda>p. \<not> expiresAt (snd p) \<le> now) store"
proof -
  have "(fst p \<notin> fst ` set (filter (\<lambda>q. expiresAt (snd q) \<le> now) store)) = (\<not> expiresAt (snd p) \<le> now)"
    if "p \<in> set store" for p
  proof -
    have uniq: "snd q = snd p" if "q \<in> set store" "fst q = fst p" for q
      using assms that \<open>p \<in> set store\<close> unfolding wf_store_def
      by (metis eq_key_imp_eq_value prod.collapse)
    show ?thesis
    proof
      assume "fst p \<notin> fst ` set (filter (\<lambda>q. expiresAt (snd q) \<le> now) store)"
      with \<open>p \<in> set store\<close> show "\<not> expiresAt (snd p) \<le> now"
        by (auto simp: image_iff)
    next
      assume live: "\<not> expiresAt (snd p) \<le> now"
      show "fst p \<notin> fst ` set (filter (\<lambda>q. expiresAt (snd q) \<le> now) store)"
      proof
        assume "fst p \<in> fst ` set (filter (\<lambda>q. expiresAt (snd q) \<le> now) store)"
        then obtain q where "q \<in> set store" "expiresAt (snd q) \<le> now" "fst q = fst p"
          by (auto simp: image_iff)
        with uniq live show False by metis
      qed
    qed
  qed
  then show ?thesis
    unfolding sweep_loop_filter_gen by (intro filter_cong) auto
qed

lemma wf_store_sweep_loop: "wf_store store \<Longrightarrow> wf_store (sweep_loop now rest store)"
  unfolding sweep_loop_filter_gen wf_store_def by (simp add: distinct_map_filter)

lemma counts_positive_sweep_loop:
  "counts_positive store \<Longrightarrow> counts_positive (sweep_loop now rest store)"
  unfolding sweep_loop_filter_gen counts_positive_def by (simp add: list_all_iff)

section \<open>The admission decision\<close>

lemma validate_accepts:
  "rateLimitSchema_validate b = Inr b \<longleftrightarrow>
     body_key b \<noteq> []
     \<and> (case body_points b of None \<Rightarrow> True | Some p \<Rightarrow> 1 \<le> p \<and> p \<le> MAX_SAFE_INTEGER)
     \<and> (case body_duration b of None \<Rightarrow> True | Some d \<Rightarrow> 1 \<le> d \<and> d \<le> MAX_SAFE_INTEGER)"
  by (auto simp: rateLimitSchema_validate_def check_number_def unsafe_number_def
      MAX_SAFE_INTEGER_def split: option.splits)

lemma validate_result: "rateLimitSchema_validate b = Inr v \<Longrightarrow> v = b"
  by (auto simp: rateLimitSchema_validate_def split: option.splits if_splits)

lemma ratelimit_handler_valid:
  assumes "rateLimitSchema_validate b = Inr b"
    and "points = (case body_points b of None \<Rightarrow> 100 | Some p \<Rightarrow> p)"
    and "dur = (case body_duration b of None \<Rightarrow> 60 | Some d \<Rightarrow> d)"
    and "rk = ''rl:'' @ body_key b"
  shows "ratelimit_handler c now b st =
           (if current (fst (rateLimit c now rk points dur st)) > points
            then \<lparr>status = 429, payload = Denied_body (ttl (fst (rateLimit c now rk points dur st)))\<rparr>
            else \<lparr>status = 200,
                   payload = Allowed_body (points - current (fst (rateLimit c now rk points dur st)))\<rparr>,
            snd (rateLimit c now rk points dur st))"
  unfolding ratelimit_handler_def assms by (simp add: Let_def split: prod.splits)

lemma ratelimit_handler_invalid:
  assumes "rateLimitSchema_validate b \<noteq> Inr b"
  shows "\<exists>f. ratelimit_handler c now b st = (\<lparr>status = 400, payload = Validation_body f\<rparr>, st)"
proof (cases "rateLimitSchema_validate b")
  case (Inl f)
  then show ?thesis by (simp add: ratelimit_handler_def)
next
  case (Inr v)
  then show ?thesis using assms validate_result [OF Inr] by simp
qed

text \<open>C1. The route handler calls \<^verbatim>\<open>rateLimit\<close> exactly for the requests that pass the schema:
  a non-empty key and, given or by default, points and duration that are integers from 1 up to
  the largest safe integer; every other request is answered 400 without a call. For every
  result \<open>{current, ttl}\<close> that \<^verbatim>\<open>rateLimit\<close> returns for such a request, points and duration are
  positive, and: when \<open>current > points\<close> the reply is 429 with
  \<open>{allowed: false, retryAfter: ttl}\<close>, otherwise it is 200 with
  \<open>{allowed: true, remaining: points - current}\<close>; the remaining figure of an allowed reply is
  never negative.\<close>

theorem ratelimit_handler_decision:
  "(rateLimitSchema_validate b = Inr b \<longleftrightarrow>
      body_key b \<noteq> []
      \<and> (case body_points b of None \<Rightarrow> True | Some p \<Rightarrow> 1 \<le> p \<and> p \<le> MAX_SAFE_INTEGER)
      \<and> (case body_duration b of None \<Rightarrow> True | Some d \<Rightarrow> 1 \<le> d \<and> d \<le> MAX_SAFE_INTEGER))
   \<and> (rateLimitSchema_validate b \<noteq> Inr b \<longrightarrow>
        (\<exists>f. ratelimit_handler c now b st =
                (\<lparr>status = 400, payload = Validation_body f\<rparr>, st)))
   \<and> (rateLimitSchema_validate b = Inr b
        \<and> points = (case body_points b of None \<Rightarrow> 100 | Some p \<Rightarrow> p)
        \<and> dur = (case body_duration b of None \<Rightarrow> 60 | Some d \<Rightarrow> d)
        \<and> rateLimit c now (''rl:'' @ body_key b) points dur st = (res, st') \<longrightarrow>
        1 \<le> points \<and> 1 \<le> dur
        \<and> ratelimit_handler c now b st =
            (if current res > points
             then (\<lparr>status = 429, payload = Denied_body (ttl res)\<rparr>, st')
             else (\<lparr>status = 200, payload = Allowed_body (points - current res)\<rparr>, st'))
        \<and> (\<forall>n. payload (fst (ratelimit_handler c now b st)) = Allowed_body n \<longrightarrow> 0 \<le> n))"
proof -
  have decided: "1 \<le> points \<and> 1 \<le> dur
        \<and> ratelimit_handler c now b st =
            (if current res > points
             then (\<lparr>status = 429, payload = Denied_body (ttl res)\<rparr>, st')
             else (\<lparr>status = 200, payload = Allowed_body (points - current res)\<rparr>, st'))
        \<and> (\<forall>n. payload (fst (ratelimit_handler c now b st)) = Allowed_body n \<longrightarrow> 0 \<le> n)"
    if v: "rateLimitSchema_validate b = Inr b"
      and p: "points = (case body_points b of None \<Rightarrow> 100 | Some p \<Rightarrow> p)"
      and d: "dur = (case body_duration b of None \<Rightarrow> 60 | Some d \<Rightarrow> d)"
      and r: "rateLimit c now (''rl:'' @ body_key b) points dur st = (res, st')"
  proof -
    have pos: "1 \<le> points" "1 \<le> dur"
      using v p d unfolding validate_accepts by (auto split: option.splits)
    have h: "ratelimit_handler c now b st =
            (if current res > points
             then (\<lparr>status = 429, payload = Denied_body (ttl res)\<rparr>, st')
             else (\<lparr>status = 200, payload = Allowed_body (points - current res)\<rparr>, st'))"
      using ratelimit_handler_valid [OF v p d refl, of c now st] r by simp
    show ?thesis unfolding h using pos by auto
  qed
  show ?thesis
    using validate_accepts [of b] ratelimit_handler_invalid [of b c now st] decided
    by blast
qed

theorem ratelimit_handler_decision_witness:
  "ratelimit_handler Redis_cmds 5000
      \<lparr>body_key = ''a'', body_points = Some 1, body_duration = Some 10\<rparr>
      \<lparr>redis = None, redisConnected = False,
       memoryStore = [(''rl:a'', \<lparr>count = 1, expiresAt = 7000\<rparr>)]\<rparr>
   = (\<lparr>status = 429, payload = Denied_body 2\<rparr>,
      \<lparr>redis = None, redisConnected = False,
       memoryStore = [(''rl:a'', \<lparr>count = 2, expiresAt = 7000\<rparr>)]\<rparr>)
   \<and> rateLimitSchema_validate
        \<lparr>body_key = ''a'', body_points = Some 9007199254740992, body_duration = Some 10\<rparr>
       \<noteq> Inr \<lparr>body_key = ''a'', body_points = Some 9007199254740992, body_duration = Some 10\<rparr>"
proof -
  have v: "rateLimitSchema_validate
             \<lparr>body_key = ''a'', body_points = Some 1, body_duration = Some 10\<rparr>
           = Inr \<lparr>body_key = ''a'', body_points = Some 1, body_duration = Some 10\<rparr>"
    by (simp add: rateLimitSchema_validate_def check_number_def unsafe_number_def
        MAX_SAFE_INTEGER_def)
  have r: "rateLimit Redis_cmds 5000 (''rl:'' @ ''a'') 1 10
             \<lparr>redis = None, redisConnected = False,
              memoryStore = [(''rl:a'', \<lparr>count = 1, expiresAt = 7000\<rparr>)]\<rparr>
           = (\<lparr>current = 2, ttl = 2\<rparr>,
              \<lparr>redis = None, redisConnected = False,
               memoryStore = [(''rl:a'', \<lparr>count = 2, expiresAt = 7000\<rparr>)]\<rparr>)"
    by (simp add: rateLimit_def memoryFallback_def)
  have t1: "ratelimit_handler Redis_cmds 5000
      \<lparr>body_key = ''a'', body_points = Some 1, body_duration = Some 10\<rparr>
      \<lparr>redis = None, redisConnected = False,
       memoryStore = [(''rl:a'', \<lparr>count = 1, expiresAt = 7000\<rparr>)]\<rparr>
   = (\<lparr>status = 429, payload = Denied_body 2\<rparr>,
      \<lparr>redis = None, redisConnected = False,
       memoryStore = [(''rl:a'', \<lparr>count = 2, expiresAt = 7000\<rparr>)]\<rparr>)"
    using v r ratelimit_handler_decision
      [where b = "\<lparr>body_key = ''a'', body_points = Some 1, body_duration = Some 10\<rparr>"
         and points = 1 and dur = 10 and c = Redis_cmds and now = 5000
         and st = "\<lparr>redis = None, redisConnected = False,
                   memoryStore = [(''rl:a'', \<lparr>count = 1, expiresAt = 7000\<rparr>)]\<rparr>"
         and res = "\<lparr>current = 2, ttl = 2\<rparr>"
         and st' = "\<lparr>redis = None, redisConnected = False,
                    memoryStore = [(''rl:a'', \<lparr>count = 2, expiresAt = 7000\<rparr>)]\<rparr>",
       THEN conjunct2, THEN conjunct2]
    by simp
  have t2: "rateLimitSchema_validate
        \<lparr>body_key = ''a'', body_points = Some 9007199254740992, body_duration = Some 10\<rparr>
       \<noteq> Inr \<lparr>body_key = ''a'', body_points = Some 9007199254740992, body_duration = Some 10\<rparr>"
    using ratelimit_handler_decision
      [where b = "\<lparr>body_key = ''a'', body_points = Some 9007199254740992,
                   body_duration = Some 10\<rparr>", THEN conjunct1]
    by (simp add: MAX_SAFE_INTEGER_def)
  show ?thesis using t1 t2 by simp
qed

section \<open>The local backend\<close>

text \<open>C5. Window reset: when the record stored for a key has \<open>now \<ge> expiresAt\<close>, the
  in-memory half of \<^verbatim>\<open>rateLimit\<close> replaces it with \<open>{count: 1, expiresAt: now + duration*1000}\<close>
  and returns \<open>{current: 1, ttl: duration}\<close>, whatever the count was. That is what
  \<^verbatim>\<open>rateLimit\<close> returns and stores whenever the call is served locally (the health flag is
  false, or the attempt on the shared backend fails).\<close>

theorem window_reset:
  assumes "map_of store k = Some r" and "expiresAt r \<le> now"
  shows "memoryFallback now k dur store =
           (\<lparr>current = 1, ttl = dur\<rparr>,
            AList.update k \<lparr>count = 1, expiresAt = now + dur * 1000\<rparr> store)
         \<and> map_of (snd (memoryFallback now k dur store)) k =
             Some \<lparr>count = 1, expiresAt = now + dur * 1000\<rparr>
         \<and> (served_locally c k limit dur st \<and> memoryStore st = store \<longrightarrow>
              fst (rateLimit c now k limit dur st) = \<lparr>current = 1, ttl = dur\<rparr>
              \<and> memoryStore (snd (rateLimit c now k limit dur st)) =
                  AList.update k \<lparr>count = 1, expiresAt = now + dur * 1000\<rparr> store)
         \<and> (\<not> redisConnected st \<longrightarrow> served_locally c k limit dur st)"
proof -
  have "no_live_record store k now"
    using assms by (simp add: no_live_record_def)
  then have m: "memoryFallback now k dur store =
      (\<lparr>current = 1, ttl = dur\<rparr>,
       AList.update k \<lparr>count = 1, expiresAt = now + dur * 1000\<rparr> store)"
    by (rule memoryFallback_fresh)
  show ?thesis
    using rateLimit_served_locally [of c k limit dur st now]
    by (auto simp: m update_conv' served_locally_flag_false)
qed

theorem window_reset_witness:
  "memoryFallback 9000 ''rl:a'' 10 [(''rl:a'', \<lparr>count = 7, expiresAt = 9000\<rparr>)] =
     (\<lparr>current = 1, ttl = 10\<rparr>, [(''rl:a'', \<lparr>count = 1, expiresAt = 19000\<rparr>)])
   \<and> fst (rateLimit Redis_cmds 9000 ''rl:a'' 5 10
            (failing_state\<lparr>memoryStore := [(''rl:a'', \<lparr>count = 7, expiresAt = 9000\<rparr>)]\<rparr>))
       = \<lparr>current = 1, ttl = 10\<rparr>"
  using window_reset
    [where store = "[(''rl:a'', \<lparr>count = 7, expiresAt = 9000\<rparr>)]" and k = "''rl:a''"
       and r = "\<lparr>count = 7, expiresAt = 9000\<rparr>" and now = 9000 and dur = 10
       and c = Redis_cmds and limit = 5
       and st = "failing_state\<lparr>memoryStore := [(''rl:a'', \<lparr>count = 7, expiresAt = 9000\<rparr>)]\<rparr>"]
    served_locally_failing_state [of 5 10 "[(''rl:a'', \<lparr>count = 7, expiresAt = 9000\<rparr>)]"]
  by simp

text \<open>C6. Window start: for a key with no live record in the map (no entry, or an entry with
  \<open>expiresAt \<le> now\<close>), an increment with window length \<open>duration\<close> returns exactly
  \<open>current = 1\<close> and \<open>ttl = duration\<close>, and leaves a record with count 1 for the key; so
  does \<^verbatim>\<open>rateLimit\<close> whenever the call is served locally.\<close>

theorem window_start:
  assumes "map_of store k = None \<or> (\<exists>r. map_of store k = Some r \<and> expiresAt r \<le> now)"
  shows "current (fst (memoryFallback now k dur store)) = 1
         \<and> ttl (fst (memoryFallback now k dur store)) = dur
         \<and> map_of (snd (memoryFallback now k dur store)) k =
             Some \<lparr>count = 1, expiresAt = now + dur * 1000\<rparr>
         \<and> (served_locally c k limit dur st \<and> memoryStore st = store \<longrightarrow>
              fst (rateLimit c now k limit dur st) = \<lparr>current = 1, ttl = dur\<rparr>)
         \<and> (\<not> redisConnected st \<longrightarrow> served_locally c k limit dur st)"
proof -
  have "no_live_record store k now"
    using assms by (auto simp: no_live_record_def)
  then have m: "memoryFallback now k dur store =
      (\<lparr>current = 1, ttl = dur\<rparr>,
       AList.update k \<lparr>count = 1, expiresAt = now + dur * 1000\<rparr> store)"
    by (rule memoryFallback_fresh)
  show ?thesis
    using rateLimit_served_locally [of c k limit dur st now]
    by (auto simp: m update_conv' served_locally_flag_false)
qed

theorem window_start_witness:
  "current (fst (memoryFallback 5000 ''rl:b'' 60 [(''rl:a'', \<lparr>count = 7, expiresAt = 9000\<rparr>)])) = 1
   \<and> ttl (fst (memoryFallback 5000 ''rl:b'' 60 [(''rl:a'', \<lparr>count = 7, expiresAt = 9000\<rparr>)])) = 60
   \<and> fst (rateLimit Redis_cmds 5000 ''rl:a'' 5 60 (failing_state\<lparr>memoryStore := []\<rparr>))
       = \<lparr>current = 1, ttl = 60\<rparr>"
proof -
  have h: "map_of [(''rl:a'', \<lparr>count = 7, expiresAt = 9000\<rparr>)] ''rl:b'' = None
           \<or> (\<exists>r. map_of [(''rl:a'', \<lparr>count = 7, expiresAt = 9000\<rparr>)] ''rl:b'' = Some r
                  \<and> expiresAt r \<le> 5000)"
    by simp
  have h': "map_of [] ''rl:a'' = None
            \<or> (\<exists>r. map_of [] ''rl:a'' = Some (r :: counter_record) \<and> expiresAt r \<le> 5000)"
    by simp
  have t1: "current (fst (memoryFallback 5000 ''rl:b'' 60
                [(''rl:a'', \<lparr>count = 7, expiresAt = 9000\<rparr>)])) = 1
            \<and> ttl (fst (memoryFallback 5000 ''rl:b'' 60
                [(''rl:a'', \<lparr>count = 7, expiresAt = 9000\<rparr>)])) = 60"
    using window_start [OF h, of 60] by blast
  have t2: "fst (rateLimit Redis_cmds 5000 ''rl:a'' 5 60 (failing_state\<lparr>memoryStore := []\<rparr>))
            = \<lparr>current = 1, ttl = 60\<rparr>"
    using window_start
      [OF h', where dur = 60 and c = Redis_cmds and limit = 5
         and st = "failing_state\<lparr>memoryStore := []\<rparr>"]
      served_locally_failing_state [of 5 60 "[]"]
    by simp
  show ?thesis using t1 t2 by simp
qed

text \<open>C10. In-window frame: when the record of a key is live (\<open>expiresAt > now\<close>), an increment
  changes the store only in that record's count, which grows by exactly 1. Its \<open>expiresAt\<close>
  stays, the records of all other keys stay, no key is added or moved, and the duration
  argument has no effect on the result or on the store. That is the store \<^verbatim>\<open>rateLimit\<close>
  leaves whenever the call is served locally.\<close>

theorem in_window_frame:
  assumes "map_of store k = Some r" and "now < expiresAt r"
  shows "snd (memoryFallback now k dur store) = AList.update k (r\<lparr>count := count r + 1\<rparr>) store
         \<and> map_of (snd (memoryFallback now k dur store)) k =
             Some \<lparr>count = count r + 1, expiresAt = expiresAt r\<rparr>
         \<and> (\<forall>k'. k' \<noteq> k \<longrightarrow>
               map_of (snd (memoryFallback now k dur store)) k' = map_of store k')
         \<and> map fst (snd (memoryFallback now k dur store)) = map fst store
         \<and> memoryFallback now k dur' store = memoryFallback now k dur store
         \<and> (served_locally c k limit dur st \<and> memoryStore st = store \<longrightarrow>
              memoryStore (snd (rateLimit c now k limit dur st)) =
                AList.update k (r\<lparr>count := count r + 1\<rparr>) store)
         \<and> (\<not> redisConnected st \<longrightarrow> served_locally c k limit dur st)"
proof -
  have m: "memoryFallback now k d store =
      (\<lparr>current = count r + 1, ttl = \<lceil>real_of_int (expiresAt r - now) / 1000\<rceil>\<rparr>,
       AList.update k (r\<lparr>count := count r + 1\<rparr>) store)" for d
    using assms by (rule memoryFallback_live)
  have keys: "map fst (AList.update k (r\<lparr>count := count r + 1\<rparr>) store) = map fst store"
    using assms(1) by (simp add: update_keys map_of_eq_None_iff [symmetric])
  have rec: "r\<lparr>count := count r + 1\<rparr> = \<lparr>count = count r + 1, expiresAt = expiresAt r\<rparr>"
    by simp
  have loc: "memoryStore (snd (rateLimit c now k limit dur st)) =
      AList.update k (r\<lparr>count := count r + 1\<rparr>) store"
    if "served_locally c k limit dur st" "memoryStore st = store"
    using rateLimit_served_locally [OF that(1), of now] that(2) by (simp add: m)
  show ?thesis
    unfolding m using keys loc by (simp add: update_conv' rec served_locally_flag_false)
qed

theorem in_window_frame_witness:
  "snd (memoryFallback 5000 ''rl:a'' 60
          [(''rl:a'', \<lparr>count = 7, expiresAt = 9000\<rparr>), (''rl:b'', \<lparr>count = 1, expiresAt = 5001\<rparr>)])
   = [(''rl:a'', \<lparr>count = 8, expiresAt = 9000\<rparr>), (''rl:b'', \<lparr>count = 1, expiresAt = 5001\<rparr>)]
   \<and> memoryStore (snd (rateLimit Redis_cmds 5000 ''rl:a'' 5 60
        (failing_state\<lparr>memoryStore :=
           [(''rl:a'', \<lparr>count = 7, expiresAt = 9000\<rparr>), (''rl:b'', \<lparr>count = 1, expiresAt = 5001\<rparr>)]\<rparr>)))
   = [(''rl:a'', \<lparr>count = 8, expiresAt = 9000\<rparr>), (''rl:b'', \<lparr>count = 1, expiresAt = 5001\<rparr>)]"
  using in_window_frame
    [where store = "[(''rl:a'', \<lparr>count = 7, expiresAt = 9000\<rparr>),
                     (''rl:b'', \<lparr>count = 1, expiresAt = 5001\<rparr>)]"
       and k = "''rl:a''" and r = "\<lparr>count = 7, expiresAt = 9000\<rparr>" and now = 5000 and dur = 60
       and c = Redis_cmds and limit = 5
       and st = "failing_state\<lparr>memoryStore :=
                   [(''rl:a'', \<lparr>count = 7, expiresAt = 9000\<rparr>),
                    (''rl:b'', \<lparr>count = 1, expiresAt = 5001\<rparr>)]\<rparr>"]
    served_locally_failing_state
      [of 5 60 "[(''rl:a'', \<lparr>count = 7, expiresAt = 9000\<rparr>),
                 (''rl:b'', \<lparr>count = 1, expiresAt = 5001\<rparr>)]"]
  by simp

section \<open>The limit argument\<close>

text \<open>C9. Two calls of \<^verbatim>\<open>rateLimit\<close> that agree on the key, the duration, the clock and the
  state and differ in the limit return the same \<open>{current, ttl}\<close> and leave the same state.
  The same holds for the script on the remote store, for every implementation of its three
  commands. The limit is read by the comparison of the route handler only: there, points 1 and
  points 5 give different replies in the same state.\<close>

theorem limit_noninterference:
  "rateLimit c now k limit1 dur st = rateLimit c now k limit2 dur st
   \<and> RATE_LIMIT_SCRIPT c k limit1 dur r = RATE_LIMIT_SCRIPT c k limit2 dur r
   \<and> fst (ratelimit_handler Redis_cmds 5000
             \<lparr>body_key = ''a'', body_points = Some 1, body_duration = Some 10\<rparr>
             \<lparr>redis = None, redisConnected = False,
              memoryStore = [(''rl:a'', \<lparr>count = 1, expiresAt = 7000\<rparr>)]\<rparr>)
       = \<lparr>status = 429, payload = Denied_body 2\<rparr>
   \<and> fst (ratelimit_handler Redis_cmds 5000
             \<lparr>body_key = ''a'', body_points = Some 5, body_duration = Some 10\<rparr>
             \<lparr>redis = None, redisConnected = False,
              memoryStore = [(''rl:a'', \<lparr>count = 1, expiresAt = 7000\<rparr>)]\<rparr>)
       = \<lparr>status = 200, payload = Allowed_body 3\<rparr>"
proof -
  have s: "RATE_LIMIT_SCRIPT c k limit1 dur = RATE_LIMIT_SCRIPT c k limit2 dur"
    by (rule ext) (simp add: RATE_LIMIT_SCRIPT_def)
  have r: "rateLimit c now k limit1 dur st = rateLimit c now k limit2 dur st"
    unfolding rateLimit_def s by simp
  have h1: "fst (ratelimit_handler Redis_cmds 5000
             \<lparr>body_key = ''a'', body_points = Some 1, body_duration = Some 10\<rparr>
             \<lparr>redis = None, redisConnected = False,
              memoryStore = [(''rl:a'', \<lparr>count = 1, expiresAt = 7000\<rparr>)]\<rparr>)
       = \<lparr>status = 429, payload = Denied_body 2\<rparr>"
    by (simp add: ratelimit_handler_def rateLimitSchema_validate_def check_number_def
        unsafe_number_def MAX_SAFE_INTEGER_def rateLimit_def memoryFallback_def)
  have h5: "fst (ratelimit_handler Redis_cmds 5000
             \<lparr>body_key = ''a'', body_points = Some 5, body_duration = Some 10\<rparr>
             \<lparr>redis = None, redisConnected = False,
              memoryStore = [(''rl:a'', \<lparr>count = 1, expiresAt = 7000\<rparr>)]\<rparr>)
       = \<lparr>status = 200, payload = Allowed_body 3\<rparr>"
    by (simp add: ratelimit_handler_def rateLimitSchema_validate_def check_number_def
        unsafe_number_def MAX_SAFE_INTEGER_def rateLimit_def memoryFallback_def)
  show ?thesis
    using s r h1 h5 by simp
qed

section \<open>Lemmas about sequences of operations\<close>

lemma memoryStore_rateLimit:
  "memoryStore (snd (rateLimit c now k limit dur st)) = memoryStore st
   \<or> memoryStore (snd (rateLimit c now k limit dur st)) =
       snd (memoryFallback now k dur (memoryStore st))"
  by (auto simp: rateLimit_def split: option.splits prod.splits sum.splits)

lemma counts_positive_apply_action:
  assumes "counts_positive (memoryStore st)"
  shows "counts_positive (memoryStore (apply_action c a st))"
proof (cases a)
  case (Act_connectRedis u r0)
  then show ?thesis using assms by (simp add: connectRedis_def split: option.splits)
next
  case (Act_event ev)
  then show ?thesis
    using assms by (simp add: redis_on_def split: option.splits redis_event.splits)
next
  case (Act_sweep now)
  then show ?thesis using assms by (simp add: sweep_def counts_positive_sweep_loop)
next
  case (Act_rateLimit now k limit dur)
  then show ?thesis
    using assms memoryStore_rateLimit [of c now k limit dur st]
      counts_positive_memoryFallback [OF assms, of now k dur]
    by auto
qed

lemma wf_store_apply_action:
  assumes "wf_store (memoryStore st)"
  shows "wf_store (memoryStore (apply_action c a st))"
proof (cases a)
  case (Act_connectRedis u r0)
  then show ?thesis using assms by (simp add: connectRedis_def split: option.splits)
next
  case (Act_event ev)
  then show ?thesis
    using assms by (simp add: redis_on_def split: option.splits redis_event.splits)
next
  case (Act_sweep now)
  then show ?thesis using assms by (simp add: sweep_def wf_store_sweep_loop)
next
  case (Act_rateLimit now k limit dur)
  then show ?thesis
    using assms memoryStore_rateLimit [of c now k limit dur st]
      wf_store_memoryFallback [OF assms, of now k dur]
    by auto
qed

lemma counts_positive_run_actions:
  "counts_positive (memoryStore st) \<Longrightarrow> counts_positive (memoryStore (run_actions c acts st))"
  by (induction acts arbitrary: st) (simp_all add: counts_positive_apply_action)

lemma wf_store_run_actions:
  "wf_store (memoryStore st) \<Longrightarrow> wf_store (memoryStore (run_actions c acts st))"
  by (induction acts arbitrary: st) (simp_all add: wf_store_apply_action)

lemma client_present_apply_action:
  assumes "client_present st"
  shows "client_present (apply_action c a st)"
proof (cases a)
  case (Act_connectRedis u r0)
  then show ?thesis
    using assms by (auto simp: connectRedis_def client_present_def split: option.splits if_splits)
next
  case (Act_event ev)
  then show ?thesis
    using assms
    by (auto simp: redis_on_def client_present_def split: option.splits redis_event.splits if_splits)
next
  case (Act_sweep now)
  then show ?thesis using assms by (simp add: sweep_def client_present_def)
next
  case (Act_rateLimit now k limit dur)
  then show ?thesis
    using assms
    by (auto simp: rateLimit_def client_present_def split: option.splits prod.splits sum.splits if_splits)
qed

lemma client_present_run_actions:
  "client_present st \<Longrightarrow> client_present (run_actions c acts st)"
  by (induction acts arbitrary: st) (simp_all add: client_present_apply_action)












section \<open>The store invariant\<close>

text \<open>C8. Every record in the map has a count of at least 1. The empty map of the start has the
  property, every operation of the program keeps it, so every state the program reaches has it.
  Creating a record sets its count to 1, an increment inside the window adds 1 to the count, and
  the cleanup interval keeps exactly the records with \<open>expiresAt > now\<close>, each as it was.\<close>

theorem store_counts_positive:
  "counts_positive (memoryStore (initial_state :: 'r app_state))
   \<and> (counts_positive (memoryStore st) \<longrightarrow>
        counts_positive (memoryStore (apply_action c a st)))
   \<and> counts_positive (memoryStore (run_actions c acts (initial_state :: 'r app_state)))
   \<and> (no_live_record store k now \<longrightarrow>
        map_of (snd (memoryFallback now k dur store)) k =
          Some \<lparr>count = 1, expiresAt = now + dur * 1000\<rparr>)
   \<and> (\<forall>r. map_of store k = Some r \<and> now < expiresAt r \<longrightarrow>
        map_of (snd (memoryFallback now k dur store)) k = Some (r\<lparr>count := count r + 1\<rparr>))
   \<and> (wf_store (memoryStore st) \<longrightarrow>
        memoryStore (sweep now st) =
          filter (\<lambda>p. \<not> expiresAt (snd p) \<le> now) (memoryStore st))
   \<and> wf_store (memoryStore (run_actions c acts (initial_state :: 'r app_state)))"
proof -
  have init: "counts_positive (memoryStore (initial_state :: 'r app_state))"
    by (simp add: initial_state_def counts_positive_def)
  have wf_init: "wf_store (memoryStore (initial_state :: 'r app_state))"
    by (simp add: initial_state_def wf_store_def)
  have created: "map_of (snd (memoryFallback now k dur store)) k =
      Some \<lparr>count = 1, expiresAt = now + dur * 1000\<rparr>" if "no_live_record store k now"
    by (simp add: memoryFallback_fresh [OF that] update_conv')
  have incremented: "map_of (snd (memoryFallback now k dur store)) k =
      Some (r\<lparr>count := count r + 1\<rparr>)" if "map_of store k = Some r" "now < expiresAt r" for r
    by (simp add: memoryFallback_live [OF that] update_conv')
  have swept: "memoryStore (sweep now st) =
      filter (\<lambda>p. \<not> expiresAt (snd p) \<le> now) (memoryStore st)" if "wf_store (memoryStore st)"
    by (simp add: sweep_def sweep_loop_filter [OF that])
  show ?thesis
    using init counts_positive_apply_action [of st c a]
      counts_positive_run_actions [OF init, of c acts]
      created incremented swept wf_store_run_actions [OF wf_init, of c acts]
    by blast
qed

theorem store_counts_positive_witness:
  "counts_positive
     (memoryStore (apply_action Redis_cmds (Act_rateLimit 5000 ''rl:a'' 5 10)
        \<lparr>redis = None, redisConnected = False,
         memoryStore = [(''rl:a'', \<lparr>count = 3, expiresAt = 7000\<rparr>)]\<rparr>))
   \<and> memoryStore (sweep 7000
        \<lparr>redis = None :: redis_db option, redisConnected = False,
         memoryStore = [(''rl:a'', \<lparr>count = 3, expiresAt = 7000\<rparr>),
                        (''rl:b'', \<lparr>count = 1, expiresAt = 7001\<rparr>)]\<rparr>)
      = [(''rl:b'', \<lparr>count = 1, expiresAt = 7001\<rparr>)]"
proof -
  have a: "counts_positive (memoryStore
      \<lparr>redis = None :: redis_db option, redisConnected = False,
       memoryStore = [(''rl:a'', \<lparr>count = 3, expiresAt = 7000\<rparr>)]\<rparr>)"
    by (simp add: counts_positive_def)
  have b: "wf_store (memoryStore
      \<lparr>redis = None :: redis_db option, redisConnected = False,
       memoryStore = [(''rl:a'', \<lparr>count = 3, expiresAt = 7000\<rparr>),
                      (''rl:b'', \<lparr>count = 1, expiresAt = 7001\<rparr>)]\<rparr>)"
    by (simp add: wf_store_def)
  have t1: "counts_positive
     (memoryStore (apply_action Redis_cmds (Act_rateLimit 5000 ''rl:a'' 5 10)
        \<lparr>redis = None, redisConnected = False,
         memoryStore = [(''rl:a'', \<lparr>count = 3, expiresAt = 7000\<rparr>)]\<rparr>))"
    using a store_counts_positive
      [where st = "\<lparr>redis = None :: redis_db option, redisConnected = False,
                    memoryStore = [(''rl:a'', \<lparr>count = 3, expiresAt = 7000\<rparr>)]\<rparr>"
         and c = Redis_cmds and a = "Act_rateLimit 5000 ''rl:a'' 5 10"]
    by blast
  have t2: "memoryStore (sweep 7000
        \<lparr>redis = None :: redis_db option, redisConnected = False,
         memoryStore = [(''rl:a'', \<lparr>count = 3, expiresAt = 7000\<rparr>),
                        (''rl:b'', \<lparr>count = 1, expiresAt = 7001\<rparr>)]\<rparr>)
      = filter (\<lambda>p. \<not> expiresAt (snd p) \<le> 7000)
          (memoryStore \<lparr>redis = None :: redis_db option, redisConnected = False,
             memoryStore = [(''rl:a'', \<lparr>count = 3, expiresAt = 7000\<rparr>),
                            (''rl:b'', \<lparr>count = 1, expiresAt = 7001\<rparr>)]\<rparr>)"
    using b store_counts_positive
      [where st = "\<lparr>redis = None :: redis_db option, redisConnected = False,
                    memoryStore = [(''rl:a'', \<lparr>count = 3, expiresAt = 7000\<rparr>),
                                   (''rl:b'', \<lparr>count = 1, expiresAt = 7001\<rparr>)]\<rparr>"
         and now = 7000]
    by blast
  show ?thesis using t1 t2 by simp
qed

section \<open>Scenario A\<close>




section \<open>Routing between the backends\<close>

text \<open>C2. In every state in which a true health flag comes with a client (all states the
  program reaches): with the flag true \<^verbatim>\<open>rateLimit\<close> runs the script on the shared backend, and
  when the script fails the error is caught and the call returns what the in-memory half
  returns; with the flag false the shared backend is not touched. The call leaves the flag as
  it was, so a failure switches nothing for later calls. A valid request always gets an
  allow or deny reply (200 or 429) from the route handler, whatever the shared backend did.\<close>

theorem rateLimit_routing:
  assumes "client_present st"
  shows "(redisConnected st \<longrightarrow>
            (\<exists>r. redis st = Some r \<and>
               (case RATE_LIMIT_SCRIPT c k limit dur r of
                  (Inr res, r') \<Rightarrow>
                    rateLimit c now k limit dur st =
                      (\<lparr>current = fst res, ttl = snd res\<rparr>, st\<lparr>redis := Some r'\<rparr>)
                | (Inl err, r') \<Rightarrow>
                    rateLimit c now k limit dur st =
                      (fst (memoryFallback now k dur (memoryStore st)),
                       st\<lparr>redis := Some r',
                          memoryStore := snd (memoryFallback now k dur (memoryStore st))\<rparr>))))
         \<and> (\<not> redisConnected st \<longrightarrow>
              rateLimit c now k limit dur st =
                (fst (memoryFallback now k dur (memoryStore st)),
                 st\<lparr>memoryStore := snd (memoryFallback now k dur (memoryStore st))\<rparr>))
         \<and> redisConnected (snd (rateLimit c now k limit dur st)) = redisConnected st
         \<and> client_present (snd (rateLimit c now k limit dur st))
         \<and> (rateLimitSchema_validate b = Inr b \<longrightarrow>
              is_decision (payload (fst (ratelimit_handler c now b st)))
              \<and> status (fst (ratelimit_handler c now b st)) \<in> {200, 429})
         \<and> client_present (run_actions c acts (initial_state :: 'r app_state))"
proof -
  have shared: "\<exists>r. redis st = Some r \<and>
               (case RATE_LIMIT_SCRIPT c k limit dur r of
                  (Inr res, r') \<Rightarrow>
                    rateLimit c now k limit dur st =
                      (\<lparr>current = fst res, ttl = snd res\<rparr>, st\<lparr>redis := Some r'\<rparr>)
                | (Inl err, r') \<Rightarrow>
                    rateLimit c now k limit dur st =
                      (fst (memoryFallback now k dur (memoryStore st)),
                       st\<lparr>redis := Some r',
                          memoryStore := snd (memoryFallback now k dur (memoryStore st))\<rparr>))"
    if conn: "redisConnected st"
  proof -
    obtain r where r: "redis st = Some r"
      using assms conn by (auto simp: client_present_def)
    show ?thesis
      using conn r by (auto simp: rateLimit_def split: prod.splits sum.splits)
  qed
  have flag: "redisConnected (snd (rateLimit c now k limit dur st)) = redisConnected st"
    by (auto simp: rateLimit_def split: option.splits prod.splits sum.splits)
  have cp: "client_present (snd (rateLimit c now k limit dur st))"
    using client_present_apply_action [OF assms, of c "Act_rateLimit now k limit dur"] by simp
  have decision: "is_decision (payload (fst (ratelimit_handler c now b st)))
              \<and> status (fst (ratelimit_handler c now b st)) \<in> {200, 429}"
    if "rateLimitSchema_validate b = Inr b"
    unfolding ratelimit_handler_def that by (simp add: Let_def split: prod.splits)
  have init: "client_present (initial_state :: 'r app_state)"
    by (simp add: client_present_def initial_state_def)
  show ?thesis
    using shared rateLimit_local [of st c now k limit dur] flag cp decision
      client_present_run_actions [OF init, of c acts]
    by blast
qed

theorem rateLimit_routing_witness:
  "rateLimit Redis_cmds 5000 ''rl:a'' 5 10 failing_state =
     (\<lparr>current = 1, ttl = 10\<rparr>,
      failing_state\<lparr>memoryStore := [(''rl:a'', \<lparr>count = 1, expiresAt = 15000\<rparr>)]\<rparr>)
   \<and> rateLimit Redis_cmds 5000 ''rl:a'' 5 10 (failing_state\<lparr>redisConnected := False\<rparr>) =
     (\<lparr>current = 1, ttl = 10\<rparr>,
      failing_state\<lparr>redisConnected := False,
                     memoryStore := [(''rl:a'', \<lparr>count = 1, expiresAt = 15000\<rparr>)]\<rparr>)"
proof -
  have a: "client_present failing_state"
    by (simp add: client_present_def failing_state_def)
  have b: "client_present (failing_state\<lparr>redisConnected := False\<rparr>)"
    by (simp add: client_present_def)
  have s: "RATE_LIMIT_SCRIPT Redis_cmds ''rl:a'' 5 10
             \<lparr>server_now = 1000, entries = [(''rl:a'', \<lparr>rvalue = RList [], expire_at = None\<rparr>)]\<rparr>
           = (Inl (Redis_error ''WRONGTYPE Operation against a key holding the wrong kind of value''),
              \<lparr>server_now = 1000, entries = [(''rl:a'', \<lparr>rvalue = RList [], expire_at = None\<rparr>)]\<rparr>)"
    by (simp add: RATE_LIMIT_SCRIPT_def Redis_cmds_def Redis_INCR_def lookup_live_def entry_live_def)
  have m: "memoryFallback 5000 ''rl:a'' 10 [] =
             (\<lparr>current = 1, ttl = 10\<rparr>, [(''rl:a'', \<lparr>count = 1, expiresAt = 15000\<rparr>)])"
    by (simp add: memoryFallback_def)
  have t1: "rateLimit Redis_cmds 5000 ''rl:a'' 5 10 failing_state =
     (\<lparr>current = 1, ttl = 10\<rparr>,
      failing_state\<lparr>memoryStore := [(''rl:a'', \<lparr>count = 1, expiresAt = 15000\<rparr>)]\<rparr>)"
    using rateLimit_routing
      [OF a, where c = Redis_cmds and k = "''rl:a''" and limit = 5 and dur = 10 and now = 5000,
       THEN conjunct1] s m
    by (simp add: failing_state_def)
  have t2: "rateLimit Redis_cmds 5000 ''rl:a'' 5 10 (failing_state\<lparr>redisConnected := False\<rparr>) =
     (\<lparr>current = 1, ttl = 10\<rparr>,
      failing_state\<lparr>redisConnected := False,
                     memoryStore := [(''rl:a'', \<lparr>count = 1, expiresAt = 15000\<rparr>)]\<rparr>)"
    using rateLimit_routing
      [OF b, where c = Redis_cmds and k = "''rl:a''" and limit = 5 and dur = 10 and now = 5000,
       THEN conjunct2, THEN conjunct1] m
    by (simp add: failing_state_def)
  show ?thesis using t1 t2 by simp
qed

section \<open>The signature headers\<close>

text \<open>C3, as the claim states it, fails: with the right bearer token, \<^verbatim>\<open>X-Timestamp: 0\<close> (which
  \<^verbatim>\<open>Number\<close> turns into the number 0, not NaN) and a signature present, the hook replies
  400 \<open>Missing signature\<close>.\<close>

theorem missing_signature_counterexample:
  "preHandler example_env 1700000000000 (post_request (Some ''0'') (Some ''abc''))
     = Some MissingSignature
   \<and> Number_js example_env (x_timestamp (post_request (Some ''0'') (Some ''abc''))) = Fin 0
   \<and> Number_js example_env (x_timestamp (post_request (Some ''0'') (Some ''abc''))) \<noteq> NaN
   \<and> x_signature (post_request (Some ''0'') (Some ''abc'')) \<noteq> None
   \<and> authorization (post_request (Some ''0'') (Some ''abc''))
       = Some (''Bearer '' @ SHARED_SECRET example_env)"
  by (simp add: preHandler_def auth_rejected_def post_request_def example_env_def
      Number_digits_def digit_of_def)

text \<open>C3, amended. For a request to a route other than \<^verbatim>\<open>/health\<close> whose \<^verbatim>\<open>Authorization\<close>
  header is \<open>Bearer\<close> and the secret: the hook replies 400 \<open>Missing signature\<close> exactly when
  \<^verbatim>\<open>Number(X-Timestamp)\<close> is NaN or zero, or \<^verbatim>\<open>X-Signature\<close> is absent or empty. Otherwise it goes
  on to the clock-skew check and then to the comparison of the signature.\<close>

theorem preHandler_missing_signature:
  assumes "url (req_route req) \<noteq> ''/health''"
    and "authorization req = Some (''Bearer '' @ SHARED_SECRET e)"
  shows "(preHandler e now req = Some MissingSignature \<longleftrightarrow>
            falsy_num (Number_js e (x_timestamp req)) \<or> falsy_header (x_signature req))
         \<and> (\<not> falsy_num (Number_js e (x_timestamp req)) \<and> \<not> falsy_header (x_signature req) \<longrightarrow>
              preHandler e now req =
                (if skew_exceeded now (Number_js e (x_timestamp req)) then Some ExpiredRequest
                 else if x_signature req \<noteq>
                           Some (hmac e (toString_js e (Number_js e (x_timestamp req))))
                      then Some InvalidSignature
                 else None))"
proof -
  have auth: "\<not> auth_rejected e req"
    using assms(2) by (simp add: auth_rejected_def)
  show ?thesis
    using assms(1) auth
    by (simp add: preHandler_def Let_def MissingSignature_def ExpiredRequest_def
        InvalidSignature_def)
qed

theorem preHandler_missing_signature_witness:
  "preHandler example_env 1700000000000 (post_request (Some ''1700000000000'') (Some ''abc''))
     \<noteq> Some MissingSignature
   \<and> preHandler example_env 1700000000000 (post_request (Some ''1700000000000'') (Some []))
     = Some MissingSignature"
proof -
  have t1: "preHandler example_env 1700000000000
              (post_request (Some ''1700000000000'') (Some ''abc'')) \<noteq> Some MissingSignature"
    using preHandler_missing_signature
      [of "post_request (Some ''1700000000000'') (Some ''abc'')" example_env 1700000000000,
       THEN conjunct1]
    by (simp add: post_request_def example_env_def Number_digits_def digit_of_def)
  have t2: "preHandler example_env 1700000000000
              (post_request (Some ''1700000000000'') (Some [])) = Some MissingSignature"
    using preHandler_missing_signature
      [of "post_request (Some ''1700000000000'') (Some [])" example_env 1700000000000,
       THEN conjunct1]
    by (simp add: post_request_def example_env_def)
  show ?thesis using t1 t2 by simp
qed

section \<open>The health route\<close>

text \<open>C4, as the claim states it, fails: in a state with the health flag true, where the shared
  store holds one key and the local map none, the reply reports \<open>memoryStoreSize = 0\<close>, the size
  of the local map, not the size 1 of the shared store.\<close>

theorem health_size_counterexample:
  "redisConnected connected_state
   \<and> map_option Redis_DBSIZE (redis connected_state) = Some 1
   \<and> fst (serve example_env Redis_cmds 0 0 health_request connected_state) =
       \<lparr>status = 200, payload = Health_body ''ok'' ''connected'' 0\<rparr>"
  by (simp add: connected_state_def initial_state_def connectRedis_def redis_on_def
      rateLimit_def RATE_LIMIT_SCRIPT_def Redis_cmds_def Redis_INCR_def Redis_EXPIRE_def
      Redis_TTL_def lookup_live_def entry_live_def Redis_DBSIZE_def serve_def preHandler_def
      auth_rejected_def health_request_def example_env_def health_handler_def)

text \<open>C4, amended. For every request to \<^verbatim>\<open>GET /health\<close> whose \<^verbatim>\<open>Authorization\<close> header is
  \<open>Bearer\<close> and the secret, the reply is 200 with status \<open>ok\<close>, a redis field that is
  \<open>connected\<close> when the health flag is true and \<open>disconnected (using memory fallback)\<close>
  otherwise, and a memoryStoreSize that is the number of records of the local map in both cases;
  the state is left as it was.\<close>

theorem health_reply:
  assumes "req_route req = GET_health"
    and "authorization req = Some (''Bearer '' @ SHARED_SECRET e)"
  shows "serve e c now_hook now_rl req st =
           (\<lparr>status = 200,
             payload = Health_body ''ok''
               (if redisConnected st then ''connected''
                else ''disconnected (using memory fallback)'')
               (length (memoryStore st))\<rparr>, st)
         \<and> (wf_store (memoryStore st) \<longrightarrow>
              length (memoryStore st) = card (dom (map_of (memoryStore st))))"
proof -
  have auth: "\<not> auth_rejected e req"
    using assms(2) by (simp add: auth_rejected_def)
  have pre: "preHandler e now_hook req = None"
    using assms(1) auth by (simp add: preHandler_def)
  have size: "length (memoryStore st) = card (dom (map_of (memoryStore st)))"
    if "wf_store (memoryStore st)"
    using that distinct_card [of "map fst (memoryStore st)"]
    by (simp add: wf_store_def dom_map_of_conv_image_fst)
  show ?thesis
    using size by (simp add: serve_def pre assms(1) health_handler_def)
qed

theorem health_reply_witness:
  "serve example_env Redis_cmds 0 0 health_request failing_state =
     (\<lparr>status = 200, payload = Health_body ''ok'' ''connected'' 0\<rparr>, failing_state)
   \<and> serve example_env Redis_cmds 0 0 health_request
       \<lparr>redis = None, redisConnected = False,
        memoryStore = [(''rl:a'', \<lparr>count = 1, expiresAt = 15000\<rparr>)]\<rparr> =
     (\<lparr>status = 200, payload = Health_body ''ok'' ''disconnected (using memory fallback)'' 1\<rparr>,
      \<lparr>redis = None, redisConnected = False,
       memoryStore = [(''rl:a'', \<lparr>count = 1, expiresAt = 15000\<rparr>)]\<rparr>)"
proof -
  have r: "req_route health_request = GET_health"
    by (simp add: health_request_def)
  have a: "authorization health_request = Some (''Bearer '' @ SHARED_SECRET example_env)"
    by (simp add: health_request_def example_env_def)
  show ?thesis
    using health_reply [OF r a, of Redis_cmds 0 0 failing_state, THEN conjunct1]
      health_reply [OF r a, of Redis_cmds 0 0
        "\<lparr>redis = None, redisConnected = False,
          memoryStore = [(''rl:a'', \<lparr>count = 1, expiresAt = 15000\<rparr>)]\<rparr>", THEN conjunct1]
    by (simp add: failing_state_def)
qed

end
